theory Spec2Isabelle
  imports Complex_Main
begin

section \<open>Configuration (types.ts)\<close>

text \<open>
  JavaScript numbers are modelled as exact reals.  The only arithmetic the
  code performs on them is \<open>reconnectMs * 1.5\<close> and \<open>Math.min\<close>; every
  bound proved below rests on \<open>min\<close> alone and so does not depend on rounding.
  An optional property (\<open>x?: T\<close>) is a value of type \<open>T option\<close>, with
  \<open>None\<close> for \<open>undefined\<close>.
\<close>

datatype CacheMode = never | end_mode | start

record SessionOptions =
  opt_url :: "string option"
  opt_reconnectTimeout :: "real option"
  opt_maxReconnectTimeout :: "real option"
  opt_shouldReconnect :: "bool option"
  opt_cacheEnabled :: "bool option"
  opt_cacheDbName :: "string option"
  opt_dedupWindow :: "real option"
  opt_cacheMode :: "CacheMode option"

record Config =
  url :: string
  reconnectTimeout :: real
  maxReconnectTimeout :: real
  shouldReconnect :: bool
  cacheEnabled :: bool
  cacheDbName :: string
  dedupWindow :: real
  cacheMode :: CacheMode

text \<open>
  The required option \<open>jwtProvider\<close> is a callback; what it returns
  enters the model as the outcome of an attempt to open the connection.
\<close>

text \<open>\<open>x || d\<close> on an optional number: \<open>undefined\<close> and \<open>0\<close> are falsy.\<close>

definition num_or :: "real option \<Rightarrow> real \<Rightarrow> real" where
  "num_or x d = (case x of None \<Rightarrow> d | Some v \<Rightarrow> if v = 0 then d else v)"

text \<open>\<open>x || d\<close> on an optional string: \<open>undefined\<close> and the empty string are falsy.\<close>

definition str_or :: "string option \<Rightarrow> string \<Rightarrow> string" where
  "str_or x d = (case x of None \<Rightarrow> d | Some v \<Rightarrow> if v = [] then d else v)"

definition defaultWsUrl :: string where
  "defaultWsUrl = ''wss://prod.ws.exoquic.com/v3/connect''"

text \<open>The constructor of \<open>Config\<close>; \<open>x !== false\<close> is true for \<open>undefined\<close>.\<close>

definition mkConfig :: "SessionOptions \<Rightarrow> Config" where
  "mkConfig options =
     \<lparr> url = str_or (opt_url options) defaultWsUrl,
       reconnectTimeout = num_or (opt_reconnectTimeout options) 1000,
       maxReconnectTimeout = num_or (opt_maxReconnectTimeout options) 10000,
       shouldReconnect = (opt_shouldReconnect options \<noteq> Some False),
       cacheEnabled = (opt_cacheEnabled options \<noteq> Some False),
       cacheDbName = str_or (opt_cacheDbName options) ''exoquic-cache-v3'',
       dedupWindow = num_or (opt_dedupWindow options) 1000,
       cacheMode = (case opt_cacheMode options of None \<Rightarrow> start | Some m \<Rightarrow> m) \<rparr>"

section \<open>Frames (types.ts)\<close>

type_synonym UUID = string

text \<open>An event's payload (\<open>data: any\<close>) is opaque to the client; it is kept as text.\<close>

record Event =
  ev_gid :: UUID
  ev_data :: string

record Batch =
  b_destination :: string
  b_gid :: UUID
  b_data :: "Event list"
  b_sid :: string

record SubscribeFrame =
  sub_destination :: string
  sub_cid :: nat
  sub_sid :: "string option"
  sub_gid :: "UUID option"
  sub_cache :: "CacheMode option"

record PublishFrame =
  pub_destination :: string
  pub_data :: string

record SubAckFrame =
  ack_sid :: string

record EventFrame =
  evt_src :: int
  evt_batch :: Batch
  evt_sid :: string

record OnSrcFrame =
  onsrc_src :: int
  onsrc_sid :: string

record ErrorFrame =
  err_code :: string
  err_message :: string

datatype Frame =
    Subscribe SubscribeFrame
  | Publish PublishFrame
  | SubAck SubAckFrame
  | EventF EventFrame
  | OnSrc OnSrcFrame
  | ErrorF ErrorFrame

section \<open>Errors\<close>

datatype idb_op =
    SidsGet | SidsPut | SidsDelete
  | EventsPut | EventsDelete | EventsByDestination | EventsBySid

datatype error =
    WebSocketNotOpen
  | ConnectFailed
  | ConnectionTimeout
  | InvalidAccessError
  | SyntaxError
  | DataError
  | StorageFailure idb_op

section \<open>Connection (connection.ts)\<close>

datatype ConnectionState = CLOSED | CONNECTING | OPEN | CLOSING

text \<open>
  A reconnect timer as \<open>handleClose\<close> creates it: \<open>t_delay\<close> is the delay
  handed to \<open>setTimeout\<close>, \<open>t_wait\<close> the value its callback will assign to
  \<open>reconnectMs\<close>.
\<close>

record Timer =
  t_delay :: real
  t_wait :: real

text \<open>
  The fields of the class, plus what it does to its surroundings:
  \<open>ws\<close> tells whether \<open>this.ws\<close> is set, \<open>sent\<close> lists the frames
  handed to \<open>ws.send\<close>, \<open>timers\<close> the reconnect timers that are
  outstanding and \<open>frameHandlers\<close> the number of registered handlers.
\<close>

record Connection =
  state :: ConnectionState
  ws :: bool
  reconnectMs :: real
  frameHandlers :: nat
  sent :: "Frame list"
  timers :: "Timer list"

definition newConnection :: "Config \<Rightarrow> Connection" where
  "newConnection cfg =
     \<lparr> state = CLOSED, ws = False, reconnectMs = reconnectTimeout cfg,
       frameHandlers = 0, sent = [], timers = [] \<rparr>"

text \<open>
  \<open>open()\<close> suspends between its synchronous prefix and the callbacks of
  the socket it creates.  The prefix is \<open>open_begin\<close>; \<open>ws_onopen\<close> is
  the \<open>onopen\<close> callback, and \<open>open_failed\<close> is what both the
  \<open>onerror\<close> callback and the \<open>catch\<close> around \<open>jwtProvider\<close> do.
  The callback of the 10 s connect timeout rejects the caller and closes the
  socket; it assigns no field.
\<close>

definition open_begin :: "Connection \<Rightarrow> Connection" where
  "open_begin c =
     (if state c = OPEN \<or> state c = CONNECTING then c else c\<lparr>state := CONNECTING\<rparr>)"

definition ws_onopen :: "Config \<Rightarrow> Connection \<Rightarrow> Connection" where
  "ws_onopen cfg c = c\<lparr>state := OPEN, reconnectMs := reconnectTimeout cfg, ws := True\<rparr>"

definition open_failed :: "Connection \<Rightarrow> Connection" where
  "open_failed c = c\<lparr>state := CLOSED\<rparr>"

text \<open>How an attempt started by \<open>open()\<close> ends; the environment decides.\<close>

datatype OpenOutcome = Opened | Failed | TimedOut

text \<open>
  \<open>await open()\<close> as its caller sees it: the error thrown, if any, and the
  connection afterwards.  In state OPEN or CONNECTING the call returns at once
  and nothing is awaited.
\<close>

definition "open" :: "Config \<Rightarrow> OpenOutcome \<Rightarrow> Connection \<Rightarrow> error option \<times> Connection" where
  "open cfg outcome c =
     (if state c = OPEN \<or> state c = CONNECTING then (None, c)
      else (case outcome of
              Opened \<Rightarrow> (None, ws_onopen cfg (c\<lparr>state := CONNECTING\<rparr>))
            | Failed \<Rightarrow> (Some ConnectFailed, open_failed (c\<lparr>state := CONNECTING\<rparr>))
            | TimedOut \<Rightarrow> (Some ConnectionTimeout, c\<lparr>state := CONNECTING\<rparr>)))"

definition handleClose :: "Config \<Rightarrow> nat \<Rightarrow> Connection \<Rightarrow> Connection" where
  "handleClose cfg code c =
     (let c1 = c\<lparr>state := CLOSED, ws := False\<rparr> in
      if code = 1000 \<or> \<not> shouldReconnect cfg then c1
      else
        let wait = min (reconnectMs c1 * 1.5) (maxReconnectTimeout cfg) in
        c1\<lparr>timers := timers c1 @ [\<lparr>t_delay = reconnectMs c1, t_wait = wait\<rparr>]\<rparr>)"

text \<open>
  The callback of the \<open>i\<close>-th outstanding timer runs: it assigns
  \<open>reconnectMs\<close> and calls \<open>open()\<close> without awaiting it.
\<close>

definition timer_fired :: "nat \<Rightarrow> Connection \<Rightarrow> Connection" where
  "timer_fired i c =
     (if i < length (timers c) then
        open_begin
          (c\<lparr>timers := take i (timers c) @ drop (Suc i) (timers c),
             reconnectMs := t_wait (timers c ! i)\<rparr>)
      else c)"

definition addFrameHandler :: "Connection \<Rightarrow> Connection" where
  "addFrameHandler c = c\<lparr>frameHandlers := Suc (frameHandlers c)\<rparr>"

definition sendFrame :: "Frame \<Rightarrow> Connection \<Rightarrow> error option \<times> Connection" where
  "sendFrame frame c =
     (if state c \<noteq> OPEN \<or> \<not> ws c then (Some WebSocketNotOpen, c)
      else (None, c\<lparr>sent := sent c @ [frame]\<rparr>))"

definition produce ::
  "Config \<Rightarrow> OpenOutcome \<Rightarrow> string \<Rightarrow> string \<Rightarrow> Connection \<Rightarrow> error option \<times> Connection" where
  "produce cfg outcome destination data c =
     (case (if state c \<noteq> OPEN then open cfg outcome c else (None, c)) of
        (Some e, c1) \<Rightarrow> (Some e, c1)
      | (None, c1) \<Rightarrow>
          sendFrame (Publish \<lparr>pub_destination = destination, pub_data = data\<rparr>) c1)"

definition isOpen :: "Connection \<Rightarrow> bool" where
  "isOpen c = (state c = OPEN)"

text \<open>
  \<open>WebSocket.close(code, reason)\<close> throws before doing anything when the
  code is neither 1000 nor in the range 3000 to 4999 (\<open>InvalidAccessError\<close>),
  and when the reason is longer than 123 bytes (\<open>SyntaxError\<close>); the code
  is checked first.  A \<open>string\<close> here is a list of bytes.
\<close>

definition ws_close :: "nat \<Rightarrow> string \<Rightarrow> error option" where
  "ws_close code reason =
     (if \<not> (code = 1000 \<or> (3000 \<le> code \<and> code \<le> 4999)) then Some InvalidAccessError
      else if 123 < length reason then Some SyntaxError
      else None)"

text \<open>
  \<open>close(code, reason)\<close>: the error it throws, if any, and the connection
  afterwards.  The method does not suspend.  When \<open>ws.close\<close> throws, the
  statements after it do not run: the state stays CLOSING, and the socket and
  the frame handlers stay in place.  Otherwise \<open>ws.close\<close> asks the
  transport to close; the transport answers later with a close event
  (\<open>handleClose\<close>), whose code is the transport's.
\<close>

definition close :: "nat \<Rightarrow> string \<Rightarrow> Connection \<Rightarrow> error option \<times> Connection" where
  "close code reason c =
     (if state c = CLOSED then (None, c)
      else
        let c1 = c\<lparr>state := CLOSING\<rparr> in
        (case (if ws c1 then ws_close code reason else None) of
           Some e \<Rightarrow> (Some e, c1)
         | None \<Rightarrow> (None, c1\<lparr>state := CLOSED, ws := False, frameHandlers := 0\<rparr>)))"

text \<open>
  What can happen to a connection, one event at a time: a caller invokes
  \<open>open()\<close> or \<open>close()\<close>, the socket of an attempt opens, fails or
  runs into the connect timeout, an open socket reports its close with a code,
  or a reconnect timer fires.
\<close>

datatype ConnEvent =
    CallOpen
  | WsOpened
  | WsConnectError
  | ConnectTimeout
  | WsClosed nat
  | TimerFired nat
  | CallClose nat string

fun conn_step :: "Config \<Rightarrow> Connection \<Rightarrow> ConnEvent \<Rightarrow> Connection" where
  "conn_step cfg c CallOpen = open_begin c"
| "conn_step cfg c WsOpened = ws_onopen cfg c"
| "conn_step cfg c WsConnectError = open_failed c"
| "conn_step cfg c ConnectTimeout = c"
| "conn_step cfg c (WsClosed code) = handleClose cfg code c"
| "conn_step cfg c (TimerFired i) = timer_fired i c"
| "conn_step cfg c (CallClose code reason) = snd (close code reason c)"

definition conn_run :: "Config \<Rightarrow> ConnEvent list \<Rightarrow> Connection" where
  "conn_run cfg es = foldl (conn_step cfg) (newConnection cfg) es"

section \<open>The database (index.ts, \<open>initializeDatabase\<close>)\<close>

text \<open>
  One IndexedDB database with two object stores.  Store \<open>sids\<close> has key path
  \<open>destination\<close>: a record's key is its own \<open>destination\<close> property.
  Store \<open>events\<close> is created with \<open>autoIncrement: true\<close> and no key path:
  its keys are generated and kept beside the values, never inside them.
\<close>

record SessionData =
  sd_destination :: string
  sd_sid :: string
  sd_gid :: "UUID option"

record EventCacheEntry =
  ce_destination :: string
  ce_sid :: string
  ce_batch :: Batch

text \<open>
  \<open>events\<close> lists the pairs of generated key and value in key order, which is
  insertion order; \<open>nextKey\<close> is the key generator.  \<open>broken\<close> names the
  requests that the storage engine fails; a healthy database has none.
\<close>

record IDB =
  sids :: "string \<rightharpoonup> SessionData"
  events :: "(nat \<times> EventCacheEntry) list"
  nextKey :: nat
  broken :: "idb_op set"

definition idb_get_sid :: "string \<Rightarrow> IDB \<Rightarrow> error + SessionData option" where
  "idb_get_sid destination db =
     (if SidsGet \<in> broken db then Inl (StorageFailure SidsGet)
      else Inr (sids db destination))"

definition idb_put_sid :: "SessionData \<Rightarrow> IDB \<Rightarrow> error + IDB" where
  "idb_put_sid v db =
     (if SidsPut \<in> broken db then Inl (StorageFailure SidsPut)
      else Inr (db\<lparr>sids := (sids db)(sd_destination v \<mapsto> v)\<rparr>))"

definition idb_delete_sid :: "string \<Rightarrow> IDB \<Rightarrow> error + IDB" where
  "idb_delete_sid destination db =
     (if SidsDelete \<in> broken db then Inl (StorageFailure SidsDelete)
      else Inr (db\<lparr>sids := (sids db)(destination := None)\<rparr>))"

definition idb_put_event :: "EventCacheEntry \<Rightarrow> IDB \<Rightarrow> error + IDB" where
  "idb_put_event v db =
     (if EventsPut \<in> broken db then Inl (StorageFailure EventsPut)
      else Inr (db\<lparr>events := events db @ [(nextKey db, v)], nextKey := Suc (nextKey db)\<rparr>))"

text \<open>\<open>getAllFromIndex\<close> returns the values (not the keys), in key order.\<close>

definition idb_events_by_destination :: "string \<Rightarrow> IDB \<Rightarrow> error + EventCacheEntry list" where
  "idb_events_by_destination destination db =
     (if EventsByDestination \<in> broken db then Inl (StorageFailure EventsByDestination)
      else Inr (map snd (filter (\<lambda>(k, v). ce_destination v = destination) (events db))))"

definition idb_events_by_sid :: "string \<Rightarrow> IDB \<Rightarrow> error + EventCacheEntry list" where
  "idb_events_by_sid sid db =
     (if EventsBySid \<in> broken db then Inl (StorageFailure EventsBySid)
      else Inr (map snd (filter (\<lambda>(k, v). ce_sid v = sid) (events db))))"

text \<open>
  \<open>store.delete(key)\<close> on \<open>events\<close>.  The argument is what the caller
  computed; \<open>undefined\<close> is not a valid key and IndexedDB raises a
  \<open>DataError\<close> for it before touching the store.
\<close>

definition idb_delete_event :: "nat option \<Rightarrow> IDB \<Rightarrow> error + IDB" where
  "idb_delete_event key db =
     (case key of
        None \<Rightarrow> Inl DataError
      | Some k \<Rightarrow>
          if EventsDelete \<in> broken db then Inl (StorageFailure EventsDelete)
          else Inr (db\<lparr>events := filter (\<lambda>(k', v). k' \<noteq> k) (events db)\<rparr>))"

text \<open>
  The expression \<open>event.id\<close> of \<open>clearEventsByDestination\<close>, on a value
  read from \<open>events\<close>.  Such a value is an \<open>EventCacheEntry\<close> as
  \<open>storeEvent\<close> wrote it, with the properties \<open>destination\<close>, \<open>sid\<close> and
  \<open>batch\<close>; the store keeps its keys out of line, so the value has no
  property \<open>id\<close> and the expression is \<open>undefined\<close>.
\<close>

definition entry_id :: "EventCacheEntry \<Rightarrow> nat option" where
  "entry_id event = None"

section \<open>The client's state\<close>

record SourceManager =
  activeSources :: "string \<rightharpoonup> int"
  bufferedEvents :: "string \<rightharpoonup> Batch list"

text \<open>One call \<open>handler(data, dest)\<close> made by \<open>dispatch\<close>; handlers are numbered.\<close>

record Delivery =
  d_handler :: nat
  d_data :: "string list"
  d_dest :: string

text \<open>
  The objects that the facade wires together.  \<open>session_db\<close> and
  \<open>cache_db\<close> tell whether \<open>SessionIdManager.db\<close> and
  \<open>CacheManager.db\<close> are set; both refer to the one database \<open>idb\<close>.
  \<open>destinationHandlers\<close> maps a destination to its handlers in insertion
  order, \<open>pendingSubscriptions\<close> is the map of the subscription manager in
  insertion order, and \<open>delivered\<close> records the handler calls made so far.
\<close>

record Client =
  idb :: IDB
  session_db :: bool
  cache_db :: bool
  sourceManager :: SourceManager
  destinationHandlers :: "string \<rightharpoonup> nat list"
  delivered :: "Delivery list"
  pendingSubscriptions :: "(nat \<times> SubscribeFrame) list"
  connection :: Connection

text \<open>Truthiness of an optional string: \<open>undefined\<close> and \<open>''\<close> are falsy.\<close>

definition falsy :: "string option \<Rightarrow> bool" where
  "falsy x = (x = None \<or> x = Some [])"

section \<open>SessionIdManager (session.ts)\<close>

definition storeSessionId :: "string \<Rightarrow> string \<Rightarrow> Client \<Rightarrow> error option \<times> Client" where
  "storeSessionId sid destination s =
     (if \<not> session_db s then (None, s)
      else
        (case idb_put_sid \<lparr>sd_destination = destination, sd_sid = sid, sd_gid = None\<rparr> (idb s) of
           Inl e \<Rightarrow> (Some e, s)
         | Inr db \<Rightarrow> (None, s\<lparr>idb := db\<rparr>)))"

definition updateGid :: "string \<Rightarrow> UUID \<Rightarrow> Client \<Rightarrow> error option \<times> Client" where
  "updateGid destination gid s =
     (if \<not> session_db s then (None, s)
      else
        (case idb_get_sid destination (idb s) of
           Inl e \<Rightarrow> (Some e, s)
         | Inr None \<Rightarrow> (None, s)
         | Inr (Some sessionData) \<Rightarrow>
             (case idb_put_sid (sessionData\<lparr>sd_gid := Some gid\<rparr>) (idb s) of
                Inl e \<Rightarrow> (Some e, s)
              | Inr db \<Rightarrow> (None, s\<lparr>idb := db\<rparr>))))"

definition getSessionData :: "string \<Rightarrow> Client \<Rightarrow> SessionData option" where
  "getSessionData destination s =
     (if \<not> session_db s then None
      else (case idb_get_sid destination (idb s) of Inl e \<Rightarrow> None | Inr r \<Rightarrow> r))"

definition getGid :: "string \<Rightarrow> Client \<Rightarrow> UUID option" where
  "getGid destination s =
     (case getSessionData destination s of None \<Rightarrow> None | Some sessionData \<Rightarrow> sd_gid sessionData)"

definition removeDestination :: "string \<Rightarrow> Client \<Rightarrow> error option \<times> Client" where
  "removeDestination destination s =
     (if \<not> session_db s then (None, s)
      else
        (case idb_delete_sid destination (idb s) of
           Inl e \<Rightarrow> (Some e, s)
         | Inr db \<Rightarrow> (None, s\<lparr>idb := db\<rparr>)))"

text \<open>The loop \<open>for (const event of events) await tx.store.delete(event.id)\<close>.\<close>

fun delete_each :: "EventCacheEntry list \<Rightarrow> IDB \<Rightarrow> error + IDB" where
  "delete_each [] db = Inr db"
| "delete_each (event # rest) db =
     (case idb_delete_event (entry_id event) db of
        Inl e \<Rightarrow> Inl e
      | Inr db' \<Rightarrow> delete_each rest db')"

definition clearEventsByDestination :: "string \<Rightarrow> Client \<Rightarrow> error option \<times> Client" where
  "clearEventsByDestination destination s =
     (if \<not> session_db s then (None, s)
      else
        (case idb_events_by_destination destination (idb s) of
           Inl e \<Rightarrow> (Some e, s)
         | Inr evs \<Rightarrow>
             (case delete_each evs (idb s) of
                Inl e \<Rightarrow> (Some e, s)
              | Inr db \<Rightarrow> (None, s\<lparr>idb := db\<rparr>))))"

section \<open>CacheManager (cache.ts)\<close>

definition storeEvent :: "Config \<Rightarrow> Batch \<Rightarrow> Client \<Rightarrow> error option \<times> Client" where
  "storeEvent cfg batch s =
     (if \<not> cacheEnabled cfg then (None, s)
      else if \<not> cache_db s then (None, s)
      else
        (case idb_put_event
                \<lparr>ce_destination = b_destination batch, ce_sid = b_sid batch, ce_batch = batch\<rparr>
                (idb s) of
           Inl e \<Rightarrow> (Some e, s)
         | Inr db \<Rightarrow> (None, s\<lparr>idb := db\<rparr>)))"

definition getEventsBySid :: "Config \<Rightarrow> string \<Rightarrow> Client \<Rightarrow> Batch list" where
  "getEventsBySid cfg sid s =
     (if \<not> cacheEnabled cfg then []
      else if \<not> cache_db s then []
      else (case idb_events_by_sid sid (idb s) of Inl e \<Rightarrow> [] | Inr entries \<Rightarrow> map ce_batch entries))"

section \<open>SourceManager (source.ts)\<close>

definition processBufferedEvents :: "string \<Rightarrow> SourceManager \<Rightarrow> Batch list \<times> SourceManager" where
  "processBufferedEvents sid m =
     (case bufferedEvents m sid of
        None \<Rightarrow> ([], m)
      | Some bs \<Rightarrow> (bs, m\<lparr>bufferedEvents := (bufferedEvents m)(sid := None)\<rparr>))"

definition handleSourceChange :: "OnSrcFrame \<Rightarrow> SourceManager \<Rightarrow> Batch list \<times> SourceManager" where
  "handleSourceChange frame m =
     (let newSource = onsrc_src frame;
          activeSource = activeSources m (onsrc_sid frame) in
      if Some newSource = activeSource then ([], m)
      else
        let oldSource = activeSource;
            m1 = m\<lparr>activeSources := (activeSources m)(onsrc_sid frame \<mapsto> newSource)\<rparr> in
        if newSource = 2 \<and> oldSource = Some 1 then processBufferedEvents (onsrc_sid frame) m1
        else ([], m1))"

definition bufferEvent :: "string \<Rightarrow> Batch \<Rightarrow> SourceManager \<Rightarrow> SourceManager" where
  "bufferEvent sid batch m =
     m\<lparr>bufferedEvents :=
         (bufferedEvents m)
           (sid \<mapsto> (case bufferedEvents m sid of None \<Rightarrow> [] | Some bs \<Rightarrow> bs) @ [batch])\<rparr>"

text \<open>\<open>SourceManager.processEventFrame\<close>; no method of the repository calls it.\<close>

definition source_processEventFrame :: "EventFrame \<Rightarrow> SourceManager \<Rightarrow> bool \<times> SourceManager" where
  "source_processEventFrame frame m =
     (let source = evt_src frame;
          activeSource = activeSources m (evt_sid frame) in
      if Some source = activeSource then (True, m)
      else (False, bufferEvent (evt_sid frame) (evt_batch frame) m))"

section \<open>EventProcessor (events.ts)\<close>

text \<open>
  \<open>dispatch\<close> calls every handler of the destination, in insertion order; a
  handler that throws is caught, so the call is recorded either way.
\<close>

definition dispatch :: "string list \<Rightarrow> string \<Rightarrow> Client \<Rightarrow> Client" where
  "dispatch data dest s =
     (case destinationHandlers s dest of
        None \<Rightarrow> s
      | Some handlers \<Rightarrow>
          s\<lparr>delivered :=
              delivered s @ map (\<lambda>h. \<lparr>d_handler = h, d_data = data, d_dest = dest\<rparr>) handlers\<rparr>)"

text \<open>
  \<open>processEvent\<close> starts \<open>storeEvent\<close> without awaiting it and swallows its
  failure; the write is taken to complete at once.
\<close>

definition processEvent :: "Config \<Rightarrow> Batch \<Rightarrow> bool \<Rightarrow> Client \<Rightarrow> Client" where
  "processEvent cfg batch skipCache s =
     (let s1 = (if cacheEnabled cfg \<and> \<not> skipCache then snd (storeEvent cfg batch s) else s);
          eventData = map ev_data (b_data batch);
          destination = b_destination batch in
      if destination \<noteq> [] then dispatch eventData destination s1 else s1)"

definition processEventFrame :: "Config \<Rightarrow> EventFrame \<Rightarrow> Client \<Rightarrow> error option \<times> Client" where
  "processEventFrame cfg frame s =
     (let batch = evt_batch frame;
          destination = b_destination batch;
          latestGid = b_gid batch in
      if destination = [] then (None, s)
      else
        let storedGid = getGid destination s in
        if falsy storedGid then
          updateGid destination latestGid
            (processEvent cfg (batch\<lparr>b_sid := evt_sid frame\<rparr>) False s)
        else if length (b_data batch) > 0 then
          let filteredBatch =
                \<lparr>b_destination = b_destination batch, b_gid = b_gid batch,
                 b_data = b_data batch, b_sid = evt_sid frame\<rparr> in
          updateGid destination latestGid (processEvent cfg filteredBatch False s)
        else (None, s))"

definition processSourceChange :: "Config \<Rightarrow> OnSrcFrame \<Rightarrow> Client \<Rightarrow> Client" where
  "processSourceChange cfg frame s =
     (case handleSourceChange frame (sourceManager s) of
        (batches, m) \<Rightarrow>
          foldl (\<lambda>s' batch. processEvent cfg batch False s') (s\<lparr>sourceManager := m\<rparr>) batches)"

text \<open>\<open>Set.add\<close>: an element already present keeps its place.\<close>

definition set_add :: "'a \<Rightarrow> 'a list \<Rightarrow> 'a list" where
  "set_add x xs = (if x \<in> set xs then xs else xs @ [x])"

fun addListener :: "string list \<Rightarrow> nat \<Rightarrow> Client \<Rightarrow> Client" where
  "addListener [] handler s = s"
| "addListener (destination # destinations) handler s =
     addListener destinations handler
       (s\<lparr>destinationHandlers :=
            (destinationHandlers s)
              (destination \<mapsto>
                 set_add handler
                   (case destinationHandlers s destination of None \<Rightarrow> [] | Some hs \<Rightarrow> hs))\<rparr>)"

section \<open>SubscriptionManager (subscription.ts)\<close>

text \<open>\<open>Map.set\<close> and \<open>Map.delete\<close> on a map kept in insertion order.\<close>

fun map_set :: "nat \<Rightarrow> 'v \<Rightarrow> (nat \<times> 'v) list \<Rightarrow> (nat \<times> 'v) list" where
  "map_set k v [] = [(k, v)]"
| "map_set k v ((k', v') # rest) =
     (if k' = k then (k, v) # rest else (k', v') # map_set k v rest)"

definition map_delete :: "nat \<Rightarrow> (nat \<times> 'v) list \<Rightarrow> (nat \<times> 'v) list" where
  "map_delete k m = filter (\<lambda>(k', v). k' \<noteq> k) m"

text \<open>
  The loop of \<open>subscribe\<close>.  \<open>random i\<close> is the correlation id drawn for the
  \<open>i\<close>-th destination, \<open>Math.floor(Math.random() * 1_000_000_000)\<close>.  A
  \<open>sendFrame\<close> that throws ends the loop, after the pending entry was set.
\<close>

fun subscribe_loop :: "(nat \<Rightarrow> nat) \<Rightarrow> nat \<Rightarrow> string list \<Rightarrow> Client \<Rightarrow> error option \<times> Client" where
  "subscribe_loop random i [] s = (None, s)"
| "subscribe_loop random i (dest # dests) s =
     (let sessionData = getSessionData dest s;
          cid = random i;
          subscribeFrame =
            \<lparr>sub_destination = dest, sub_cid = cid,
             sub_sid = map_option sd_sid sessionData,
             sub_gid = (case sessionData of None \<Rightarrow> None | Some sd \<Rightarrow> sd_gid sd),
             sub_cache = Some start\<rparr>;
          s1 = s\<lparr>pendingSubscriptions := map_set cid subscribeFrame (pendingSubscriptions s)\<rparr> in
      case sendFrame (Subscribe subscribeFrame) (connection s1) of
        (Some e, c) \<Rightarrow> (Some e, s1\<lparr>connection := c\<rparr>)
      | (None, c) \<Rightarrow> subscribe_loop random (Suc i) dests (s1\<lparr>connection := c\<rparr>))"

definition subscribe ::
  "Config \<Rightarrow> OpenOutcome \<Rightarrow> (nat \<Rightarrow> nat) \<Rightarrow> string list \<Rightarrow> Client \<Rightarrow> error option \<times> Client" where
  "subscribe cfg outcome random destinations s =
     (case (if \<not> isOpen (connection s) then open cfg outcome (connection s)
            else (None, connection s)) of
        (Some e, c) \<Rightarrow> (Some e, s\<lparr>connection := c\<rparr>)
      | (None, c) \<Rightarrow> subscribe_loop random 0 destinations (s\<lparr>connection := c\<rparr>))"

text \<open>
  \<open>handleSubAck\<close>.  The loop over \<open>pendingSubscriptions.entries()\<close> breaks
  in its first round, so the entry taken is the oldest one; \<open>matchedCid &&
  matchedFrame\<close> is a truthiness test, and the number \<open>0\<close> is falsy.  The
  result is the error the returned promise rejects with, if any.
\<close>

definition handleSubAck :: "Config \<Rightarrow> SubAckFrame \<Rightarrow> Client \<Rightarrow> error option \<times> Client" where
  "handleSubAck cfg frame s =
     (case pendingSubscriptions s of
        [] \<Rightarrow> (None, s)
      | (matchedCid, matchedFrame) # rest \<Rightarrow>
          if matchedCid \<noteq> 0 then
            let originalSid = sub_sid matchedFrame;
                newSid = ack_sid frame;
                destination = sub_destination matchedFrame in
            if falsy originalSid then
              (case storeSessionId newSid destination s of
                 (Some e, s1) \<Rightarrow> (Some e, s1)
               | (None, s1) \<Rightarrow>
                   (None, s1\<lparr>pendingSubscriptions :=
                               map_delete matchedCid (pendingSubscriptions s1)\<rparr>))
            else if originalSid \<noteq> Some newSid then
              (let s3 =
                     (case clearEventsByDestination destination s of
                        (Some e, s1) \<Rightarrow> s1
                      | (None, s1) \<Rightarrow>
                          (case removeDestination destination s1 of
                             (Some e, s2) \<Rightarrow> s2
                           | (None, s2) \<Rightarrow> snd (storeSessionId newSid destination s2))) in
               (None, s3\<lparr>pendingSubscriptions :=
                           map_delete matchedCid (pendingSubscriptions s3)\<rparr>))
            else
              (let batches = getEventsBySid cfg (ack_sid frame) s;
                   s1 = foldl (\<lambda>s' batch. processEvent cfg batch True s') s batches in
               (None, s1\<lparr>pendingSubscriptions :=
                           map_delete matchedCid (pendingSubscriptions s1)\<rparr>))
          else (None, s))"

text \<open>The frame handler that the constructor registers with the connection.\<close>

definition onFrame :: "Config \<Rightarrow> Frame \<Rightarrow> Client \<Rightarrow> error option \<times> Client" where
  "onFrame cfg frame s =
     (case frame of
        SubAck f \<Rightarrow> handleSubAck cfg f s
      | OnSrc f \<Rightarrow> (None, processSourceChange cfg f s)
      | EventF f \<Rightarrow> processEventFrame cfg f s
      | _ \<Rightarrow> (None, s))"

section \<open>Sample configurations and states\<close>

definition no_options :: SessionOptions where
  "no_options =
     \<lparr> opt_url = None, opt_reconnectTimeout = None, opt_maxReconnectTimeout = None,
       opt_shouldReconnect = None, opt_cacheEnabled = None, opt_cacheDbName = None,
       opt_dedupWindow = None, opt_cacheMode = None \<rparr>"

definition cfg_default :: Config where
  "cfg_default = mkConfig no_options"


text \<open>The client as the facade builds it, once the database is open and empty.\<close>

definition newClient :: "Config \<Rightarrow> Client" where
  "newClient cfg =
     \<lparr> idb = \<lparr>sids = Map.empty, events = [], nextKey = 1, broken = {}\<rparr>,
       session_db = True, cache_db = True,
       sourceManager = \<lparr>activeSources = Map.empty, bufferedEvents = Map.empty\<rparr>,
       destinationHandlers = Map.empty, delivered = [], pendingSubscriptions = [],
       connection = addFrameHandler (newConnection cfg) \<rparr>"

definition batch1 :: Batch where
  "batch1 =
     \<lparr>b_destination = ''orders'', b_gid = ''g2'',
      b_data = [\<lparr>ev_gid = ''g1'', ev_data = ''a''\<rparr>, \<lparr>ev_gid = ''g2'', ev_data = ''b''\<rparr>],
      b_sid = ''s1''\<rparr>"

definition frame1 :: EventFrame where
  "frame1 = \<lparr>evt_src = 1, evt_batch = batch1, evt_sid = ''s1''\<rparr>"

text \<open>Handler 7 listens on \<open>orders\<close>; nothing is stored yet.\<close>

definition listening :: Client where
  "listening = addListener [''orders''] 7 (newClient cfg_default)"

text \<open>The same, after a first acknowledgment stored the session \<open>s1\<close>.\<close>

definition subscribed :: Client where
  "subscribed = snd (storeSessionId ''s1'' ''orders'' listening)"

text \<open>A second batch for the same session, and the client after both were processed.\<close>

definition batch2 :: Batch where
  "batch2 =
     \<lparr>b_destination = ''orders'', b_gid = ''g3'',
      b_data = [\<lparr>ev_gid = ''g3'', ev_data = ''c''\<rparr>], b_sid = ''s1''\<rparr>"

definition cached :: Client where
  "cached =
     snd (processEventFrame cfg_default \<lparr>evt_src = 1, evt_batch = batch2, evt_sid = ''s1''\<rparr>
       (snd (processEventFrame cfg_default frame1 subscribed)))"

text \<open>The client subscribes again, with two cached batches and with none.\<close>

definition resuming :: Client where
  "resuming = snd (subscribe cfg_default Opened (\<lambda>i. 42 + i) [''orders''] cached)"

definition resubscribed :: Client where
  "resubscribed = snd (subscribe cfg_default Opened (\<lambda>i. 42 + i) [''orders''] subscribed)"

text \<open>The same, on a database that fails one kind of request.\<close>

definition broken_store :: "idb_op \<Rightarrow> Client" where
  "broken_store op = resubscribed\<lparr>idb := (idb resubscribed)\<lparr>broken := {op}\<rparr>\<rparr>"

text \<open>A first subscription whose correlation id is drawn as 0.\<close>

definition zero_cid :: Client where
  "zero_cid = snd (subscribe cfg_default Opened (\<lambda>i. 0) [''orders''] listening)"

text \<open>The primary source (1) was announced for session \<open>s1\<close>; then a frame of source 2.\<close>

definition after_primary :: Client where
  "after_primary =
     processSourceChange cfg_default \<lparr>onsrc_src = 1, onsrc_sid = ''s1''\<rparr> subscribed"

definition frame2 :: EventFrame where
  "frame2 = \<lparr>evt_src = 2, evt_batch = batch1, evt_sid = ''s1''\<rparr>"

text \<open>
  A later session on the same database, configured without the cache: the
  database still holds the record and the two cached batches of \<open>cached\<close>;
  the client registers its listener and subscribes.
\<close>

definition cfg_no_cache :: Config where
  "cfg_no_cache = mkConfig (no_options\<lparr>opt_cacheEnabled := Some False\<rparr>)"

definition reopened :: Client where
  "reopened =
     snd (subscribe cfg_no_cache Opened (\<lambda>i. 42 + i) [''orders'']
       (addListener [''orders''] 7 ((newClient cfg_no_cache)\<lparr>idb := idb cached\<rparr>)))"

text \<open>A configuration that asks for cache mode \<open>never\<close>.\<close>

definition cfg_never :: Config where
  "cfg_never = mkConfig (no_options\<lparr>opt_cacheMode := Some never\<rparr>)"

section \<open>Auxiliary notions\<close>


text \<open>
  What delivering a batch to the listeners means: every handler registered for
  the batch's destination is called once, in registration order, with the
  payloads of all events of the batch, in order.
\<close>

definition handler_calls :: "Client \<Rightarrow> Batch \<Rightarrow> Delivery list" where
  "handler_calls s batch =
     (if b_destination batch = [] then []
      else (case destinationHandlers s (b_destination batch) of
              None \<Rightarrow> []
            | Some handlers \<Rightarrow>
                map (\<lambda>h. \<lparr>d_handler = h, d_data = map ev_data (b_data batch),
                           d_dest = b_destination batch\<rparr>) handlers))"

lemmas store_defs =
  idb_get_sid_def idb_put_sid_def idb_delete_sid_def idb_put_event_def
  idb_events_by_destination_def idb_events_by_sid_def idb_delete_event_def entry_id_def
  storeSessionId_def updateGid_def getSessionData_def getGid_def removeDestination_def
  clearEventsByDestination_def storeEvent_def getEventsBySid_def falsy_def

lemmas pipeline_defs =
  dispatch_def processEvent_def processEventFrame_def processSourceChange_def
  handleSourceChange_def processBufferedEvents_def set_add_def handleSubAck_def
  onFrame_def map_delete_def Let_def

lemmas connection_defs =
  newConnection_def addFrameHandler_def open_def ws_onopen_def open_failed_def isOpen_def
  sendFrame_def subscribe_def

lemmas sample_defs =
  newClient_def listening_def batch1_def frame1_def subscribed_def

lemmas sample2_defs =
  batch2_def cached_def resuming_def resubscribed_def zero_cid_def broken_store_def
  reopened_def

section \<open>Reconnect backoff\<close>

lemma cfg_default_simps:
  "reconnectTimeout cfg_default = 1000"
  "maxReconnectTimeout cfg_default = 10000"
  "shouldReconnect cfg_default"
  "cacheEnabled cfg_default"
  "cacheMode cfg_default = start"
  by (simp_all add: cfg_default_def no_options_def mkConfig_def num_or_def)










section \<open>Closing the connection\<close>

text \<open>
  C7 fails on the code.  \<open>handleClose\<close> means not to reconnect after an
  intentional close and recognises one by the close code 1000 alone;
  \<open>close\<close> leaves no mark that it was called, keeps the socket's
  \<open>onclose\<close> callback attached and clears no timer.  With the default
  configuration: after \<open>close(1000, "bye")\<close> on an open connection, a close
  event with code 1006 (the network dropped) schedules a reconnect after 1000
  ms; when the timer fires a connection attempt starts, and the socket it opens
  has no frame handler left.  A timer scheduled before \<open>close\<close> was called
  fires as well and starts an attempt.
\<close>

theorem close_then_drop_reconnects:
  "close 1000 ''bye'' (conn_run cfg_default [CallOpen, WsOpened]) =
     (None, \<lparr>state = CLOSED, ws = False, reconnectMs = 1000, frameHandlers = 0,
              sent = [], timers = []\<rparr>) \<and>
   timers (conn_run cfg_default [CallOpen, WsOpened, CallClose 1000 ''bye'', WsClosed 1006]) =
     [\<lparr>t_delay = 1000, t_wait = 1500\<rparr>] \<and>
   state (conn_run cfg_default
            [CallOpen, WsOpened, CallClose 1000 ''bye'', WsClosed 1006, TimerFired 0]) = CONNECTING \<and>
   conn_run cfg_default
     [CallOpen, WsOpened, CallClose 1000 ''bye'', WsClosed 1006, TimerFired 0, WsOpened] =
     \<lparr>state = OPEN, ws = True, reconnectMs = 1000, frameHandlers = 0, sent = [], timers = []\<rparr> \<and>
   state (conn_run cfg_default
            [CallOpen, WsOpened, WsClosed 1006, CallClose 1000 ''bye'', TimerFired 0]) = CONNECTING"
  by (simp add: conn_run_def newConnection_def open_begin_def ws_onopen_def close_def
      ws_close_def handleClose_def timer_fired_def Let_def cfg_default_simps)

section \<open>Producing while an attempt is in flight\<close>

text \<open>
  C10: when \<open>produce(destination, data)\<close> is called in state Connecting, the
  nested \<open>open()\<close> returns at once without an error and without changing
  the connection, \<open>produce\<close> then rejects with the error
  \<open>WebSocket not open\<close>, and no frame is handed to the socket: the
  connection, the list of sent frames included, is as it was.
\<close>

theorem produce_while_connecting:
  assumes "state c = CONNECTING"
  shows "open cfg outcome c = (None, c) \<and>
         produce cfg outcome destination data c = (Some WebSocketNotOpen, c) \<and>
         sent (snd (produce cfg outcome destination data c)) = sent c"
proof -
  have nested: "open cfg outcome c = (None, c)"
    using assms by (simp add: open_def)
  have "sendFrame (Publish \<lparr>pub_destination = destination, pub_data = data\<rparr>) c =
          (Some WebSocketNotOpen, c)"
    using assms by (simp add: sendFrame_def)
  then have rejects: "produce cfg outcome destination data c = (Some WebSocketNotOpen, c)"
    using assms nested by (simp add: produce_def)
  show ?thesis
    using nested rejects by simp
qed

theorem produce_while_connecting_witness:
  "state (open_begin (newConnection cfg_default)) = CONNECTING \<and>
   produce cfg_default Opened ''orders'' ''hello'' (open_begin (newConnection cfg_default)) =
     (Some WebSocketNotOpen, open_begin (newConnection cfg_default)) \<and>
   sent (snd (produce cfg_default Opened ''orders'' ''hello'' (open_begin (newConnection cfg_default))))
     = []"
proof -
  have h: "state (open_begin (newConnection cfg_default)) = CONNECTING"
    by (simp add: open_begin_def newConnection_def)
  show ?thesis
    using h produce_while_connecting[OF h, of cfg_default Opened "''orders''" "''hello''"]
    by (simp add: open_begin_def newConnection_def)
qed

section \<open>What the event pipeline leaves alone\<close>

lemma storeEvent_frame:
  "delivered (snd (storeEvent cfg b s)) = delivered s"
  "destinationHandlers (snd (storeEvent cfg b s)) = destinationHandlers s"
  "sids (idb (snd (storeEvent cfg b s))) = sids (idb s)"
  "broken (idb (snd (storeEvent cfg b s))) = broken (idb s)"
  "session_db (snd (storeEvent cfg b s)) = session_db s"
  "sourceManager (snd (storeEvent cfg b s)) = sourceManager s"
  by (simp_all add: storeEvent_def idb_put_event_def)

lemma dispatch_frame:
  "idb (dispatch d dest s) = idb s"
  "session_db (dispatch d dest s) = session_db s"
  "destinationHandlers (dispatch d dest s) = destinationHandlers s"
  "sourceManager (dispatch d dest s) = sourceManager s"
  by (simp_all add: dispatch_def split: option.splits)

lemma processEvent_delivered:
  "delivered (processEvent cfg b skip s) = delivered s @ handler_calls s b"
  by (simp add: processEvent_def Let_def dispatch_def handler_calls_def storeEvent_frame
      split: option.splits)

lemma processEvent_frame:
  "sids (idb (processEvent cfg b skip s)) = sids (idb s)"
  "broken (idb (processEvent cfg b skip s)) = broken (idb s)"
  "session_db (processEvent cfg b skip s) = session_db s"
  "destinationHandlers (processEvent cfg b skip s) = destinationHandlers s"
  "sourceManager (processEvent cfg b skip s) = sourceManager s"
  by (simp_all add: processEvent_def Let_def dispatch_frame storeEvent_frame)

lemma updateGid_frame:
  "delivered (snd (updateGid d g s)) = delivered s"
  "sourceManager (snd (updateGid d g s)) = sourceManager s"
  by (simp_all add: updateGid_def idb_get_sid_def idb_put_sid_def split: option.splits)

lemma handler_calls_sid: "handler_calls s (b\<lparr>b_sid := x\<rparr>) = handler_calls s b"
  by (simp add: handler_calls_def split: option.splits)

lemma updateGid_stores:
  assumes "session_db s" and "SidsGet \<notin> broken (idb s)" and "SidsPut \<notin> broken (idb s)"
    and "sids (idb s) d = Some r" and "sd_destination r = d"
  shows "getGid d (snd (updateGid d g s)) = Some g"
  using assms
  by (simp add: updateGid_def getGid_def getSessionData_def idb_get_sid_def idb_put_sid_def)

lemma updateGid_no_record:
  assumes "sids (idb s) d = None"
  shows "sids (idb (snd (updateGid d g s))) d = None"
  using assms by (simp add: updateGid_def idb_get_sid_def)

section \<open>The first batch of a destination\<close>

text \<open>
  C4, as the claim states it, fails: \<open>updateGid\<close> writes a cursor only into
  a record that exists.  For a destination without a session record (here
  \<open>orders\<close>, before any acknowledgment) there is no stored cursor, the batch
  is delivered in full, and afterwards there is still no stored cursor.
\<close>

theorem first_batch_cursor_counterexample:
  "falsy (getGid ''orders'' listening) \<and>
   delivered (snd (processEventFrame cfg_default frame1 listening)) =
     [\<lparr>d_handler = 7, d_data = [''a'', ''b''], d_dest = ''orders''\<rparr>] \<and>
   getGid ''orders'' (snd (processEventFrame cfg_default frame1 listening)) = None"
  by (simp add: sample_defs store_defs pipeline_defs cfg_default_simps)

text \<open>
  C4, amended: for every event frame whose batch names a destination (a
  non-empty string) that has no stored cursor, every listener of the
  destination is called with the payloads of all events of the batch,
  unfiltered.  If the session store is available and working and holds a record
  for the destination (kept under its own destination, as the key path has it),
  then afterwards the stored cursor of the destination is the batch's trailing
  gid; if the store holds no record for the destination, none is created and no
  cursor is stored.
\<close>

theorem first_batch_delivered:
  assumes "b_destination (evt_batch frame) \<noteq> []"
    and "falsy (getGid (b_destination (evt_batch frame)) s)"
  shows "delivered (snd (processEventFrame cfg frame s)) =
           delivered s @ handler_calls s (evt_batch frame) \<and>
         (session_db s \<and> SidsGet \<notin> broken (idb s) \<and> SidsPut \<notin> broken (idb s) \<and>
          (\<exists>r. sids (idb s) (b_destination (evt_batch frame)) = Some r \<and>
               sd_destination r = b_destination (evt_batch frame)) \<longrightarrow>
            getGid (b_destination (evt_batch frame)) (snd (processEventFrame cfg frame s)) =
              Some (b_gid (evt_batch frame))) \<and>
         (sids (idb s) (b_destination (evt_batch frame)) = None \<longrightarrow>
            sids (idb (snd (processEventFrame cfg frame s))) (b_destination (evt_batch frame)) =
              None)"
proof -
  let ?d = "b_destination (evt_batch frame)"
  let ?s1 = "processEvent cfg ((evt_batch frame)\<lparr>b_sid := evt_sid frame\<rparr>) False s"
  have run: "processEventFrame cfg frame s = updateGid ?d (b_gid (evt_batch frame)) ?s1"
    using assms by (simp add: processEventFrame_def Let_def)
  have all_delivered: "delivered (snd (processEventFrame cfg frame s)) =
           delivered s @ handler_calls s (evt_batch frame)"
    by (simp add: run updateGid_frame processEvent_delivered handler_calls_sid)
  have cursor: "session_db s \<and> SidsGet \<notin> broken (idb s) \<and> SidsPut \<notin> broken (idb s) \<and>
          (\<exists>r. sids (idb s) ?d = Some r \<and> sd_destination r = ?d) \<longrightarrow>
            getGid ?d (snd (processEventFrame cfg frame s)) = Some (b_gid (evt_batch frame))"
    unfolding run by (auto intro!: updateGid_stores simp: processEvent_frame)
  have no_record: "sids (idb s) ?d = None \<longrightarrow>
      sids (idb (snd (processEventFrame cfg frame s))) ?d = None"
    unfolding run by (simp add: updateGid_no_record processEvent_frame)
  show ?thesis
    using all_delivered cursor no_record by blast
qed

theorem first_batch_delivered_witness:
  "b_destination (evt_batch frame1) \<noteq> [] \<and>
   falsy (getGid (b_destination (evt_batch frame1)) subscribed) \<and>
   delivered (snd (processEventFrame cfg_default frame1 subscribed)) =
     [\<lparr>d_handler = 7, d_data = [''a'', ''b''], d_dest = ''orders''\<rparr>] \<and>
   getGid ''orders'' (snd (processEventFrame cfg_default frame1 subscribed)) = Some ''g2'' \<and>
   sids (idb (snd (processEventFrame cfg_default frame1 listening))) ''orders'' = None"
proof -
  have d: "b_destination (evt_batch frame1) \<noteq> []"
    by (simp add: sample_defs)
  have n1: "falsy (getGid (b_destination (evt_batch frame1)) subscribed)"
    by (simp add: sample_defs store_defs)
  have n2: "falsy (getGid (b_destination (evt_batch frame1)) listening)"
    by (simp add: sample_defs store_defs)
  show ?thesis
    using d n1 first_batch_delivered[OF d n1, of cfg_default]
      first_batch_delivered[OF d n2, of cfg_default]
    by (simp add: sample_defs store_defs pipeline_defs handler_calls_def cfg_default_simps)
qed

section \<open>Source changes and the event path\<close>

lemma processEventFrame_sourceManager:
  "sourceManager (snd (processEventFrame cfg frame s)) = sourceManager s"
  by (simp add: processEventFrame_def Let_def updateGid_frame processEvent_frame)

text \<open>
  The source manager by itself does what its comments say: a frame of another
  source than the active one is buffered, a change from source 1 to source 2
  hands out the buffer in arrival order and discards it, and any other change
  hands out nothing.
\<close>

lemma source_buffers:
  assumes "activeSources m (evt_sid frame) \<noteq> Some (evt_src frame)"
  shows "source_processEventFrame frame m =
           (False, bufferEvent (evt_sid frame) (evt_batch frame) m)"
  using assms by (auto simp: source_processEventFrame_def Let_def)

lemma source_releases:
  assumes "activeSources m (onsrc_sid frame) = Some 1" and "onsrc_src frame = 2"
  shows "fst (handleSourceChange frame m) =
           (case bufferedEvents m (onsrc_sid frame) of None \<Rightarrow> [] | Some bs \<Rightarrow> bs) \<and>
         bufferedEvents (snd (handleSourceChange frame m)) (onsrc_sid frame) = None"
  using assms
  by (simp add: handleSourceChange_def processBufferedEvents_def Let_def split: option.splits)

lemma source_keeps:
  assumes "\<not> (activeSources m (onsrc_sid frame) = Some 1 \<and> onsrc_src frame = 2)"
  shows "fst (handleSourceChange frame m) = [] \<and>
         bufferedEvents (snd (handleSourceChange frame m)) = bufferedEvents m"
  using assms by (auto simp: handleSourceChange_def Let_def)

text \<open>
  C1 fails on the code: the frame handler hands an event frame to
  \<open>EventProcessor.processEventFrame\<close>, which never consults the source
  manager (\<open>SourceManager.processEventFrame\<close>, the method that buffers, has no
  caller).  With source 1 active for session \<open>s1\<close>, an event frame of source 2
  is delivered to the listener at once and nothing is buffered; the later change
  of source from 1 to 2 has nothing to release and delivers nothing more.
\<close>

theorem event_frame_not_buffered:
  "activeSources (sourceManager after_primary) ''s1'' = Some 1 \<and>
   delivered after_primary = [] \<and>
   delivered (snd (onFrame cfg_default (EventF frame2) after_primary)) =
     [\<lparr>d_handler = 7, d_data = [''a'', ''b''], d_dest = ''orders''\<rparr>] \<and>
   bufferedEvents (sourceManager (snd (onFrame cfg_default (EventF frame2) after_primary))) ''s1''
     = None \<and>
   delivered
     (snd (onFrame cfg_default (OnSrc \<lparr>onsrc_src = 2, onsrc_sid = ''s1''\<rparr>)
        (snd (onFrame cfg_default (EventF frame2) after_primary)))) =
     [\<lparr>d_handler = 7, d_data = [''a'', ''b''], d_dest = ''orders''\<rparr>]"
  by (simp add: after_primary_def frame2_def sample_defs store_defs pipeline_defs cfg_default_simps)

section \<open>Replay after an acknowledgment with the same sid\<close>

lemma processEvent_skip:
  "processEvent cfg b True s = s\<lparr>delivered := delivered s @ handler_calls s b\<rparr>"
  by (simp add: processEvent_def Let_def dispatch_def handler_calls_def split: option.splits)

lemma handler_calls_delivered:
  "handler_calls (s\<lparr>delivered := x\<rparr>) = handler_calls s"
  by (rule ext) (simp add: handler_calls_def)

lemma replay_fold:
  "foldl (\<lambda>s' batch. processEvent cfg batch True s') s bs =
     s\<lparr>delivered := delivered s @ concat (map (handler_calls s) bs)\<rparr>"
proof (induction bs arbitrary: s)
  case Nil
  show ?case by simp
next
  case (Cons b bs)
  let ?s1 = "processEvent cfg b True s"
  have "foldl (\<lambda>s' batch. processEvent cfg batch True s') s (b # bs) =
          foldl (\<lambda>s' batch. processEvent cfg batch True s') ?s1 bs"
    by simp
  also have "\<dots> = ?s1\<lparr>delivered := delivered ?s1 @ concat (map (handler_calls ?s1) bs)\<rparr>"
    by (rule Cons.IH)
  also have "\<dots> = s\<lparr>delivered := delivered s @ concat (map (handler_calls s) (b # bs))\<rparr>"
    by (simp add: processEvent_skip handler_calls_delivered)
  finally show ?case .
qed

text \<open>
  C5, as the claim states it, fails: \<open>getEventsBySid\<close> returns nothing
  when the cache is disabled, whatever the database holds.  Here the database
  holds the session \<open>s1\<close> of \<open>orders\<close> and two cached batches of
  \<open>s1\<close>, the client runs with \<open>cacheEnabled = false\<close>, a listener is
  registered and the subscription was sent with \<open>s1\<close>; the acknowledgment
  with \<open>s1\<close> is matched and no batch is replayed.
\<close>

theorem replay_disabled_counterexample:
  "cacheEnabled cfg_no_cache = False \<and>
   map (ce_batch \<circ> snd) (filter (\<lambda>(k, v). ce_sid v = ''s1'') (events (idb reopened))) =
     [batch1, batch2] \<and>
   destinationHandlers reopened ''orders'' = Some [7] \<and>
   pendingSubscriptions reopened =
     [(42, \<lparr>sub_destination = ''orders'', sub_cid = 42, sub_sid = Some ''s1'',
             sub_gid = Some ''g3'', sub_cache = Some start\<rparr>)] \<and>
   handleSubAck cfg_no_cache \<lparr>ack_sid = ''s1''\<rparr> reopened =
     (None, reopened\<lparr>pendingSubscriptions := []\<rparr>) \<and>
   delivered (snd (handleSubAck cfg_no_cache \<lparr>ack_sid = ''s1''\<rparr> reopened)) = []"
  by (simp add: cfg_no_cache_def no_options_def mkConfig_def num_or_def str_or_def
      sample2_defs sample_defs store_defs pipeline_defs cfg_default_simps connection_defs)

text \<open>
  C5, amended: when the oldest pending subscription (with a correlation id
  other than 0, so that \<open>handleSubAck\<close> takes it as matched) was sent with a
  non-empty sid, the one stored for its destination when it was sent, and the
  acknowledgment's sid equals it, then \<open>handleSubAck\<close> resolves and the
  client afterwards differs from the client before in two places only: the
  pending entry is removed, and the handler calls of every batch that
  \<open>getEventsBySid\<close> returned are appended, batch by batch in that order.
  With the cache enabled and the database available and readable, these are the
  batches of all cache entries of that sid, in insertion order; with the cache
  disabled or the database not available, there are none.  The database is
  untouched: no batch is written back to the cache and no session record is
  modified.
\<close>

theorem replay_on_unchanged_sid:
  assumes "pendingSubscriptions s = (cid, f) # rest"
    and "cid \<noteq> 0"
    and "sub_sid f = Some (ack_sid frame)"
    and "ack_sid frame \<noteq> []"
  shows "handleSubAck cfg frame s =
           (None,
            s\<lparr>delivered :=
                 delivered s @ concat (map (handler_calls s) (getEventsBySid cfg (ack_sid frame) s)),
               pendingSubscriptions := map_delete cid (pendingSubscriptions s)\<rparr>) \<and>
         (cacheEnabled cfg \<and> cache_db s \<and> EventsBySid \<notin> broken (idb s) \<longrightarrow>
            getEventsBySid cfg (ack_sid frame) s =
              map (ce_batch \<circ> snd) (filter (\<lambda>(k, v). ce_sid v = ack_sid frame) (events (idb s)))) \<and>
         (\<not> cacheEnabled cfg \<or> \<not> cache_db s \<longrightarrow> getEventsBySid cfg (ack_sid frame) s = []) \<and>
         idb (snd (handleSubAck cfg frame s)) = idb s"
proof -
  have run: "handleSubAck cfg frame s =
           (None,
            s\<lparr>delivered :=
                 delivered s @ concat (map (handler_calls s) (getEventsBySid cfg (ack_sid frame) s)),
               pendingSubscriptions := map_delete cid (pendingSubscriptions s)\<rparr>)"
    using assms by (simp add: handleSubAck_def falsy_def Let_def replay_fold)
  have cached: "cacheEnabled cfg \<and> cache_db s \<and> EventsBySid \<notin> broken (idb s) \<longrightarrow>
            getEventsBySid cfg (ack_sid frame) s =
              map (ce_batch \<circ> snd) (filter (\<lambda>(k, v). ce_sid v = ack_sid frame) (events (idb s)))"
    by (simp add: getEventsBySid_def idb_events_by_sid_def)
  have disabled: "\<not> cacheEnabled cfg \<or> \<not> cache_db s \<longrightarrow>
      getEventsBySid cfg (ack_sid frame) s = []"
    by (auto simp: getEventsBySid_def)
  show ?thesis
    using cached disabled by (simp add: run)
qed

theorem replay_on_unchanged_sid_witness:
  "pendingSubscriptions resuming =
     [(42, \<lparr>sub_destination = ''orders'', sub_cid = 42, sub_sid = Some ''s1'',
             sub_gid = Some ''g3'', sub_cache = Some start\<rparr>)] \<and>
   map (ce_batch \<circ> snd) (events (idb resuming)) = [batch1, batch2] \<and>
   delivered (snd (handleSubAck cfg_default \<lparr>ack_sid = ''s1''\<rparr> resuming)) =
     delivered resuming @
       [\<lparr>d_handler = 7, d_data = [''a'', ''b''], d_dest = ''orders''\<rparr>,
        \<lparr>d_handler = 7, d_data = [''c''], d_dest = ''orders''\<rparr>] \<and>
   idb (snd (handleSubAck cfg_default \<lparr>ack_sid = ''s1''\<rparr> resuming)) = idb resuming"
proof -
  have p: "pendingSubscriptions resuming =
     [(42, \<lparr>sub_destination = ''orders'', sub_cid = 42, sub_sid = Some ''s1'',
             sub_gid = Some ''g3'', sub_cache = Some start\<rparr>)]"
    by (simp add: sample2_defs sample_defs store_defs pipeline_defs cfg_default_simps
        connection_defs)
  have e: "events (idb resuming) =
     [(1, \<lparr>ce_destination = ''orders'', ce_sid = ''s1'', ce_batch = batch1\<rparr>),
      (2, \<lparr>ce_destination = ''orders'', ce_sid = ''s1'', ce_batch = batch2\<rparr>)]"
    by (simp add: sample2_defs sample_defs store_defs pipeline_defs cfg_default_simps
        connection_defs)
  have h: "destinationHandlers resuming ''orders'' = Some [7]"
    by (simp add: sample2_defs sample_defs store_defs pipeline_defs cfg_default_simps
        connection_defs split: option.splits)
  have b: "broken (idb resuming) = {}" "cache_db resuming"
    by (simp_all add: sample2_defs sample_defs store_defs pipeline_defs cfg_default_simps
        connection_defs split: option.splits)
  show ?thesis
    using replay_on_unchanged_sid[OF p, of "\<lparr>ack_sid = ''s1''\<rparr>" cfg_default] p e h b
    by (simp add: cfg_default_simps handler_calls_def batch1_def batch2_def)
qed

section \<open>Session reset\<close>

text \<open>
  C2 fails on the code when the destination has cached events.
  \<open>clearEventsByDestination\<close> deletes by \<open>event.id\<close>, which is
  \<open>undefined\<close> on every value of the store; the first \<open>delete\<close>
  raises, \<open>handleSubAck\<close> catches the error, and the steps that would
  remove the stale record and store the new sid never run.  Here the record of
  \<open>orders\<close> holds \<open>s1\<close> and two batches are cached; after the
  acknowledgment with \<open>s2\<close> the record still holds \<open>s1\<close> and both
  batches are still cached.  Without cached events the same acknowledgment
  replaces the sid.
\<close>

theorem stale_session_not_reset:
  "map_option sd_sid (sids (idb resuming) ''orders'') = Some ''s1'' \<and>
   fst (clearEventsByDestination ''orders'' resuming) = Some DataError \<and>
   fst (handleSubAck cfg_default \<lparr>ack_sid = ''s2''\<rparr> resuming) = None \<and>
   map_option sd_sid
     (sids (idb (snd (handleSubAck cfg_default \<lparr>ack_sid = ''s2''\<rparr> resuming))) ''orders'')
     = Some ''s1'' \<and>
   map (ce_batch \<circ> snd)
     (filter (\<lambda>(k, v). ce_destination v = ''orders'')
        (events (idb (snd (handleSubAck cfg_default \<lparr>ack_sid = ''s2''\<rparr> resuming))))) =
     [batch1, batch2] \<and>
   map_option sd_sid
     (sids (idb (snd (handleSubAck cfg_default \<lparr>ack_sid = ''s2''\<rparr> resubscribed))) ''orders'')
     = Some ''s2''"
  by (simp add: sample2_defs sample_defs store_defs pipeline_defs cfg_default_simps
        connection_defs)

section \<open>Removing the pending subscription\<close>

text \<open>
  C6 fails on the code for the correlation id 0, which \<open>subscribe\<close> can
  draw: \<open>if (matchedCid && matchedFrame)\<close> takes the number 0 as "no entry",
  so the acknowledgment is treated as unknown, the session id is not stored and
  the pending entry stays in the map.  With no pending entry at all the
  acknowledgment is dropped and nothing changes, as the claim says.
\<close>

theorem suback_cid_zero_not_removed:
  "pendingSubscriptions listening = [] \<and>
   handleSubAck cfg_default \<lparr>ack_sid = ''s1''\<rparr> listening = (None, listening) \<and>
   pendingSubscriptions zero_cid =
     [(0, \<lparr>sub_destination = ''orders'', sub_cid = 0, sub_sid = None, sub_gid = None,
            sub_cache = Some start\<rparr>)] \<and>
   handleSubAck cfg_default \<lparr>ack_sid = ''s1''\<rparr> zero_cid = (None, zero_cid)"
  by (simp add: sample2_defs sample_defs store_defs pipeline_defs cfg_default_simps
        connection_defs)

section \<open>Storage failures during a session reset\<close>

lemma session_ops_pending:
  "pendingSubscriptions (snd (storeSessionId sid d s)) = pendingSubscriptions s"
  "pendingSubscriptions (snd (removeDestination d s)) = pendingSubscriptions s"
  "pendingSubscriptions (snd (clearEventsByDestination d s)) = pendingSubscriptions s"
  by (simp_all add: storeSessionId_def removeDestination_def clearEventsByDestination_def
      split: sum.splits)

lemma removeDestination_fails:
  assumes "session_db s" and "SidsDelete \<in> broken (idb s)"
  shows "removeDestination d s = (Some (StorageFailure SidsDelete), s)"
  using assms by (simp add: removeDestination_def idb_delete_sid_def)

lemma storeSessionId_fails:
  assumes "session_db s" and "SidsPut \<in> broken (idb s)"
  shows "storeSessionId sid d s = (Some (StorageFailure SidsPut), s)"
  using assms by (simp add: storeSessionId_def idb_put_sid_def)

lemma delete_each_none: "delete_each evs db = Inr db' \<Longrightarrow> db' = db"
  by (cases evs) (simp_all add: idb_delete_event_def entry_id_def)

lemma clear_unchanged: "snd (clearEventsByDestination d s) = s"
  by (auto simp: clearEventsByDestination_def split: sum.splits dest: delete_each_none)

text \<open>
  C8, as the claim states it, fails: the three steps of the reset run inside a
  \<open>try\<close> whose \<open>catch\<close> logs the error and goes on.  On a database
  that fails the removal of a record, \<open>removeDestination\<close> rejects, and
  \<open>handleSubAck\<close> resolves all the same; likewise when storing the new sid
  fails.
\<close>

theorem reset_failure_counterexample:
  "fst (removeDestination ''orders'' (broken_store SidsDelete)) = Some (StorageFailure SidsDelete) \<and>
   fst (handleSubAck cfg_default \<lparr>ack_sid = ''s2''\<rparr> (broken_store SidsDelete)) = None \<and>
   fst (storeSessionId ''s2'' ''orders'' (broken_store SidsPut)) = Some (StorageFailure SidsPut) \<and>
   fst (handleSubAck cfg_default \<lparr>ack_sid = ''s2''\<rparr> (broken_store SidsPut)) = None"
  by (simp add: sample2_defs sample_defs store_defs pipeline_defs cfg_default_simps
        connection_defs)

text \<open>
  C8, amended: in the session-reset branch (the oldest pending subscription has
  a correlation id other than 0 and was sent with a non-empty sid that differs
  from the acknowledgment's) \<open>handleSubAck\<close> never rejects, and it removes the
  pending entry.  A failure of a session-store mutation is raised by the
  session manager to \<open>handleSubAck\<close>, which swallows it and skips the rest
  of the reset: when the removal of the stale record fails the database is left
  as it was, and when storing the new sid fails the destination's record is
  either absent or the old one.
\<close>

theorem reset_failure_swallowed:
  assumes "pendingSubscriptions s = (cid, f) # rest"
    and "cid \<noteq> 0"
    and "\<not> falsy (sub_sid f)"
    and "sub_sid f \<noteq> Some (ack_sid frame)"
  shows "fst (handleSubAck cfg frame s) = None \<and>
         pendingSubscriptions (snd (handleSubAck cfg frame s)) =
           map_delete cid (pendingSubscriptions s) \<and>
         (session_db s \<and> SidsDelete \<in> broken (idb s) \<longrightarrow>
            fst (removeDestination (sub_destination f) s) = Some (StorageFailure SidsDelete) \<and>
            idb (snd (handleSubAck cfg frame s)) = idb s) \<and>
         (session_db s \<and> SidsPut \<in> broken (idb s) \<longrightarrow>
            fst (storeSessionId (ack_sid frame) (sub_destination f) s) =
              Some (StorageFailure SidsPut) \<and>
            map_option sd_sid (sids (idb (snd (handleSubAck cfg frame s))) (sub_destination f)) \<in>
              {None, map_option sd_sid (sids (idb s) (sub_destination f))})"
proof -
  let ?d = "sub_destination f"
  let ?s3 = "case clearEventsByDestination ?d s of
        (Some e, s1) \<Rightarrow> s1
      | (None, s1) \<Rightarrow>
          (case removeDestination ?d s1 of
             (Some e, s2) \<Rightarrow> s2
           | (None, s2) \<Rightarrow> snd (storeSessionId (ack_sid frame) ?d s2))"
  have run: "handleSubAck cfg frame s =
      (None, ?s3\<lparr>pendingSubscriptions := map_delete cid (pendingSubscriptions ?s3)\<rparr>)"
    using assms by (simp add: handleSubAck_def Let_def)
  have cl: "clearEventsByDestination ?d s = (fst (clearEventsByDestination ?d s), s)"
    using clear_unchanged[of ?d s] by (metis prod.collapse)
  have pend: "pendingSubscriptions ?s3 = pendingSubscriptions s"
    by (subst cl) (simp add: session_ops_pending split: option.splits prod.splits,
        metis session_ops_pending(1,2) snd_conv)
  have del: "session_db s \<and> SidsDelete \<in> broken (idb s) \<longrightarrow>
      fst (removeDestination ?d s) = Some (StorageFailure SidsDelete) \<and> idb ?s3 = idb s"
    by (subst cl) (auto simp: removeDestination_fails split: option.splits)
  have put: "session_db s \<and> SidsPut \<in> broken (idb s) \<longrightarrow>
      fst (storeSessionId (ack_sid frame) ?d s) = Some (StorageFailure SidsPut) \<and>
      map_option sd_sid (sids (idb ?s3) ?d) \<in> {None, map_option sd_sid (sids (idb s) ?d)}"
    by (subst cl)
      (auto simp: storeSessionId_fails storeSessionId_def idb_put_sid_def removeDestination_def
        idb_delete_sid_def split: option.splits prod.splits if_splits)
  show ?thesis
    using pend del put by (simp add: run)
qed

theorem reset_failure_swallowed_witness:
  "pendingSubscriptions (broken_store SidsDelete) =
     [(42, \<lparr>sub_destination = ''orders'', sub_cid = 42, sub_sid = Some ''s1'',
             sub_gid = None, sub_cache = Some start\<rparr>)] \<and>
   fst (handleSubAck cfg_default \<lparr>ack_sid = ''s2''\<rparr> (broken_store SidsDelete)) = None \<and>
   pendingSubscriptions (snd (handleSubAck cfg_default \<lparr>ack_sid = ''s2''\<rparr> (broken_store SidsDelete)))
     = [] \<and>
   map_option sd_sid
     (sids (idb (snd (handleSubAck cfg_default \<lparr>ack_sid = ''s2''\<rparr> (broken_store SidsDelete))))
        ''orders'') = Some ''s1'' \<and>
   map_option sd_sid
     (sids (idb (snd (handleSubAck cfg_default \<lparr>ack_sid = ''s2''\<rparr> (broken_store SidsPut))))
        ''orders'') = None"
proof -
  have p: "pendingSubscriptions (broken_store op) =
     [(42, \<lparr>sub_destination = ''orders'', sub_cid = 42, sub_sid = Some ''s1'',
             sub_gid = None, sub_cache = Some start\<rparr>)]" for op
    by (simp add: sample2_defs sample_defs store_defs pipeline_defs cfg_default_simps
        connection_defs)
  have c: "(42::nat) \<noteq> 0"
    by simp
  have t: "\<not> falsy (sub_sid \<lparr>sub_destination = ''orders'', sub_cid = 42, sub_sid = Some ''s1'',
             sub_gid = None, sub_cache = Some start\<rparr>)"
    by (simp add: falsy_def)
  have n: "sub_sid \<lparr>sub_destination = ''orders'', sub_cid = 42, sub_sid = Some ''s1'',
             sub_gid = None, sub_cache = Some start\<rparr> \<noteq> Some (ack_sid \<lparr>ack_sid = ''s2''\<rparr>)"
    by simp
  show ?thesis
    using reset_failure_swallowed[OF p[of SidsDelete] c t n, where cfg = cfg_default]
      reset_failure_swallowed[OF p[of SidsPut] c t n, where cfg = cfg_default]
    by (simp add: sample2_defs sample_defs store_defs pipeline_defs cfg_default_simps
        connection_defs)
qed

section \<open>The cache field of subscribe frames\<close>

lemma sendFrame_cases:
  "sendFrame fr c = (Some WebSocketNotOpen, c) \<or>
   sendFrame fr c = (None, c\<lparr>sent := sent c @ [fr]\<rparr>)"
  by (simp add: sendFrame_def)

lemma subscribe_loop_frames:
  "\<exists>frames.
     sent (connection (snd (subscribe_loop random i ds s))) =
       sent (connection s) @ map Subscribe frames \<and>
     list_all (\<lambda>f. sub_cache f = Some start) frames \<and>
     (fst (subscribe_loop random i ds s) = None \<longrightarrow> map sub_destination frames = ds)"
proof (induction ds arbitrary: i s)
  case Nil
  show ?case by simp
next
  case (Cons dest dests)
  let ?sd = "getSessionData dest s"
  let ?f = "\<lparr>sub_destination = dest, sub_cid = random i,
             sub_sid = map_option sd_sid ?sd,
             sub_gid = (case ?sd of None \<Rightarrow> None | Some sd \<Rightarrow> sd_gid sd),
             sub_cache = Some start\<rparr>"
  let ?s1 = "s\<lparr>pendingSubscriptions := map_set (random i) ?f (pendingSubscriptions s)\<rparr>"
  let ?P = "\<lambda>R frames.
     sent (connection (snd R)) = sent (connection s) @ map Subscribe frames \<and>
     list_all (\<lambda>f. sub_cache f = Some start) frames \<and>
     (fst R = None \<longrightarrow> map sub_destination frames = dest # dests)"
  from sendFrame_cases[of "Subscribe ?f" "connection ?s1"]
  show ?case
  proof
    assume "sendFrame (Subscribe ?f) (connection ?s1) = (Some WebSocketNotOpen, connection ?s1)"
    then have "subscribe_loop random i (dest # dests) s =
        (Some WebSocketNotOpen, ?s1\<lparr>connection := connection ?s1\<rparr>)"
      by (simp add: Let_def)
    then have "?P (subscribe_loop random i (dest # dests) s) []"
      by simp
    then show ?thesis
      by (rule exI[of "?P (subscribe_loop random i (dest # dests) s)"])
  next
    let ?c = "(connection ?s1)\<lparr>sent := sent (connection ?s1) @ [Subscribe ?f]\<rparr>"
    let ?s2 = "?s1\<lparr>connection := ?c\<rparr>"
    assume "sendFrame (Subscribe ?f) (connection ?s1) = (None, ?c)"
    then have step: "subscribe_loop random i (dest # dests) s =
        subscribe_loop random (Suc i) dests ?s2"
      by (simp add: Let_def)
    from Cons.IH[of "Suc i" ?s2] obtain frames where
      fr: "sent (connection (snd (subscribe_loop random (Suc i) dests ?s2))) =
             sent (connection ?s2) @ map Subscribe frames \<and>
           list_all (\<lambda>f. sub_cache f = Some start) frames \<and>
           (fst (subscribe_loop random (Suc i) dests ?s2) = None \<longrightarrow>
              map sub_destination frames = dests)"
      ..
    have more: "?P (subscribe_loop random (Suc i) dests ?s2) (?f # frames)"
      using fr by clarsimp
    have "?P (subscribe_loop random i (dest # dests) s) (?f # frames)"
      unfolding step by (rule more)
    then show ?thesis
      by (rule exI[of "?P (subscribe_loop random i (dest # dests) s)"])
  qed
qed

lemma open_sent: "sent (snd (open cfg outcome c)) = sent c"
  by (simp add: open_def ws_onopen_def open_failed_def split: OpenOutcome.splits)

text \<open>
  C9 fails on the code: \<open>cacheMode\<close> is a documented option that
  \<open>Config\<close> resolves, and the \<open>cache\<close> field of a subscribe frame has
  its type, but \<open>subscribe\<close> writes the constant \<open>start\<close> into every
  frame and the subscription manager is never given the configuration.  With
  \<open>cacheMode = never\<close> the frame sent for \<open>orders\<close> carries \<open>start\<close>.
\<close>

theorem subscribe_ignores_cacheMode:
  "cacheMode cfg_never = never \<and>
   sent (connection (snd (subscribe cfg_never Opened (\<lambda>i. 7 + i) [''orders'']
      (newClient cfg_never)))) =
     [Subscribe \<lparr>sub_destination = ''orders'', sub_cid = 7, sub_sid = None, sub_gid = None,
                 sub_cache = Some start\<rparr>] \<and>
   \<not> list_all (\<lambda>f. case f of Subscribe sf \<Rightarrow> sub_cache sf = Some (cacheMode cfg_never) | _ \<Rightarrow> True)
       (sent (connection (snd (subscribe cfg_never Opened (\<lambda>i. 7 + i) [''orders'']
          (newClient cfg_never)))))"
  by (simp add: cfg_never_def no_options_def mkConfig_def num_or_def str_or_def
      sample_defs store_defs connection_defs Let_def)

text \<open>
  The same holds for every configuration and every call: the frames that
  \<open>subscribe\<close> sends are subscribe frames whose cache field is \<open>start\<close>,
  one for each destination, in order, when \<open>subscribe\<close> resolves.
\<close>

lemma subscribe_sends_start:
  "\<exists>frames.
     sent (connection (snd (subscribe cfg outcome random destinations s))) =
       sent (connection s) @ map Subscribe frames \<and>
     list_all (\<lambda>f. sub_cache f = Some start) frames \<and>
     (fst (subscribe cfg outcome random destinations s) = None \<longrightarrow>
        map sub_destination frames = destinations)"
proof -
  let ?P = "\<lambda>R frames.
     sent (connection (snd R)) = sent (connection s) @ map Subscribe frames \<and>
     list_all (\<lambda>f. sub_cache f = Some start) frames \<and>
     (fst R = None \<longrightarrow> map sub_destination frames = destinations)"
  obtain e c where oc:
    "(if \<not> isOpen (connection s) then open cfg outcome (connection s) else (None, connection s))
       = (e, c)"
    by (cases "if \<not> isOpen (connection s) then open cfg outcome (connection s)
               else (None, connection s)") blast
  have sc: "sent c = sent (connection s)"
    using oc open_sent[of cfg outcome "connection s"] by (auto split: if_splits)
  show ?thesis
  proof (cases e)
    case (Some err)
    then have "subscribe cfg outcome random destinations s = (Some err, s\<lparr>connection := c\<rparr>)"
      using oc by (simp add: subscribe_def)
    then have "?P (subscribe cfg outcome random destinations s) []"
      using sc by simp
    then show ?thesis
      by (rule exI[of "?P (subscribe cfg outcome random destinations s)"])
  next
    case None
    then have run: "subscribe cfg outcome random destinations s =
        subscribe_loop random 0 destinations (s\<lparr>connection := c\<rparr>)"
      using oc by (simp add: subscribe_def)
    show ?thesis
      using subscribe_loop_frames[of random 0 destinations "s\<lparr>connection := c\<rparr>"] sc
      by (simp add: run)
  qed
qed

end
